theory Spec2Isabelle
  imports Complex_Main "HOL-Library.Signed_Division"
begin

section \<open>The strided array views of matpackI.h\<close>

text \<open>
  The development follows \<^verbatim>\<open>src/matpackI.h\<close>: the class \<^verbatim>\<open>Range\<close>, the 1D iterators,
  the vector and matrix views and the owning containers, as far as they are defined in the
  header. Member functions that the header only declares (their bodies live in
  \<^verbatim>\<open>matpackI.cc\<close>) are modelled from the specification and marked as such.
\<close>

subsection \<open>Basic types\<close>

text \<open>
  \<^verbatim>\<open>Index\<close> is the signed machine integer of \<^verbatim>\<open>matpack.h\<close>. Signed overflow is undefined
  in C++, so the model describes the executions without overflow and uses \<^typ>\<open>int\<close>.

  A \<^verbatim>\<open>Numeric*\<close> is an address counted in units of one \<^verbatim>\<open>Numeric\<close>, so that the pointer
  arithmetic \<^verbatim>\<open>p + n\<close> is integer addition and the pointer difference \<^verbatim>\<open>p - q\<close> is integer
  subtraction. The null pointer is address 0. The memory is a function from addresses to
  elements; the element type is left open where the code only moves elements around.

  \<^verbatim>\<open>assert\<close> (from \<^verbatim>\<open>cassert\<close>) aborts on a false condition in a debug build and expands
  to nothing when \<^verbatim>\<open>NDEBUG\<close> is defined.
\<close>

type_synonym Index = int

type_synonym ptr = int

definition nullptr :: ptr where
  "nullptr = 0"

type_synonym 'a heap = "ptr \<Rightarrow> 'a"

datatype build = Debug | Release

datatype error = AssertionFailed | DivisionByZero | DimensionMismatch

definition assert_holds :: "build \<Rightarrow> bool \<Rightarrow> bool" where
  "assert_holds b c = (case b of Debug \<Rightarrow> c | Release \<Rightarrow> True)"

subsection \<open>Range\<close>

record Range =
  mstart :: Index
  mextent :: Index
  mstride :: Index

text \<open>
  Modelled from the spec: the constructors \<^verbatim>\<open>Range(Index start, Index extent, Index stride)\<close>
  and \<^verbatim>\<open>Range(Index start, Joker j, Index stride)\<close> are declared in the header and defined
  in \<^verbatim>\<open>matpackI.cc\<close>. The first "constructs directly"; the second constructs an unbounded
  range, whose extent is the sentinel -1 (the header's comment on \<^verbatim>\<open>mextent\<close>: "-1 means
  extent to the end of the vector").
\<close>

definition Range_ctor :: "Index \<Rightarrow> Index \<Rightarrow> Index \<Rightarrow> Range" where
  "Range_ctor start extent stride = \<lparr>mstart = start, mextent = extent, mstride = stride\<rparr>"

definition Range_joker :: "Index \<Rightarrow> Index \<Rightarrow> Range" where
  "Range_joker start stride = \<lparr>mstart = start, mextent = - 1, mstride = stride\<rparr>"

text \<open>\<^verbatim>\<open>Range operator()(const Range r) const\<close>, the range of a range: \<open>this\<close> is the outer one.\<close>

definition Range_call :: "Range \<Rightarrow> Range \<Rightarrow> Range" where
  "Range_call this r =
     (if mextent r < 0 then
        (if mextent this < 0
         then Range_joker (mstart this + mstart r * mstride this) (mstride r * mstride this)
         else Range_ctor (mstart this + mstart r * mstride this) (mextent this)
                (mstride r * mstride this))
      else Range_ctor (mstart this + mstart r * mstride this) (mextent r)
             (mstride r * mstride this))"

text \<open>\<^verbatim>\<open>Index operator()(const Index i) const\<close>.\<close>

definition Range_at :: "Range \<Rightarrow> Index \<Rightarrow> Index" where
  "Range_at this i = mstart this + i * mstride this"

subsection \<open>Iterator1D and ConstIterator1D\<close>

text \<open>
  Both classes hold the current position \<^verbatim>\<open>mx\<close> and the stride \<^verbatim>\<open>mstride\<close>; the stride
  fields carry a suffix here, since \<open>mstride\<close> names the field of Range.
\<close>

record Iterator1D =
  mx :: ptr
  mstride_it :: Index

text \<open>The default constructor leaves the member initialisers \<^verbatim>\<open>mx{nullptr}\<close>, \<^verbatim>\<open>mstride{0}\<close>.\<close>

definition Iterator1D_default :: Iterator1D where
  "Iterator1D_default = \<lparr>mx = nullptr, mstride_it = 0\<rparr>"

definition Iterator1D_ctor :: "ptr \<Rightarrow> Index \<Rightarrow> Iterator1D" where
  "Iterator1D_ctor x stride = \<lparr>mx = x, mstride_it = stride\<rparr>"

text \<open>Prefix increment: \<^verbatim>\<open>mx += mstride\<close>.\<close>

definition Iterator1D_incr :: "Iterator1D \<Rightarrow> Iterator1D" where
  "Iterator1D_incr this = this\<lparr>mx := mx this + mstride_it this\<rparr>"

text \<open>Dereferencing returns \<^verbatim>\<open>*mx\<close>, a reference: the address of the element.\<close>

definition Iterator1D_deref :: "Iterator1D \<Rightarrow> ptr" where
  "Iterator1D_deref this = mx this"

definition Iterator1D_neq :: "Iterator1D \<Rightarrow> Iterator1D \<Rightarrow> bool" where
  "Iterator1D_neq this other = (if mx this \<noteq> mx other then True else False)"

text \<open>
  The next two operators exist under \<^verbatim>\<open>#ifdef __GLIBCXX__\<close> only. The quotient of two
  signed integers truncates towards zero in C++ (\<open>sdiv\<close>); a zero divisor has no defined
  result there, which the model reports as an error value.
\<close>

definition Iterator1D_eq :: "Iterator1D \<Rightarrow> Iterator1D \<Rightarrow> bool" where
  "Iterator1D_eq this other = (\<not> Iterator1D_neq this other)"

definition Iterator1D_minus :: "Iterator1D \<Rightarrow> Iterator1D \<Rightarrow> error + Index" where
  "Iterator1D_minus this other =
     (if mstride_it this = 0 then Inl DivisionByZero
      else Inr ((mx this - mx other) sdiv mstride_it this))"

record ConstIterator1D =
  mx_c :: ptr
  mstride_c :: Index

definition ConstIterator1D_default :: ConstIterator1D where
  "ConstIterator1D_default = \<lparr>mx_c = nullptr, mstride_c = 0\<rparr>"

definition ConstIterator1D_ctor :: "ptr \<Rightarrow> Index \<Rightarrow> ConstIterator1D" where
  "ConstIterator1D_ctor x stride = \<lparr>mx_c = x, mstride_c = stride\<rparr>"

definition ConstIterator1D_incr :: "ConstIterator1D \<Rightarrow> ConstIterator1D" where
  "ConstIterator1D_incr this = this\<lparr>mx_c := mx_c this + mstride_c this\<rparr>"

definition ConstIterator1D_deref :: "'a heap \<Rightarrow> ConstIterator1D \<Rightarrow> 'a" where
  "ConstIterator1D_deref h this = h (mx_c this)"

definition ConstIterator1D_neq :: "ConstIterator1D \<Rightarrow> ConstIterator1D \<Rightarrow> bool" where
  "ConstIterator1D_neq this other = (if mx_c this \<noteq> mx_c other then True else False)"

subsection \<open>ConstVectorView, VectorView, Vector\<close>

text \<open>
  \<^verbatim>\<open>VectorView\<close> and \<^verbatim>\<open>Vector\<close> derive from \<^verbatim>\<open>ConstVectorView\<close> and add no data member.
  A const accessor returns the element, read from the memory; a non-const accessor returns
  a \<^verbatim>\<open>Numeric&\<close>, modelled as the address of the element.
\<close>

record ConstVectorView =
  mrange :: Range
  mdata :: ptr

type_synonym VectorView = ConstVectorView

type_synonym Vector = VectorView

text \<open>\<^verbatim>\<open>Numeric get(Index n) const\<close>: the access without assertions.\<close>

definition ConstVectorView_get :: "'a heap \<Rightarrow> ConstVectorView \<Rightarrow> Index \<Rightarrow> 'a" where
  "ConstVectorView_get h this n =
     h (mdata this + mstart (mrange this) + n * mstride (mrange this))"

text \<open>\<^verbatim>\<open>Numeric operator[](Index n) const\<close>.\<close>

definition ConstVectorView_index ::
  "build \<Rightarrow> 'a heap \<Rightarrow> ConstVectorView \<Rightarrow> Index \<Rightarrow> error + 'a" where
  "ConstVectorView_index b h this n =
     (if \<not> assert_holds b (0 \<le> n) then Inl AssertionFailed
      else if \<not> assert_holds b (n < mextent (mrange this)) then Inl AssertionFailed
      else Inr (ConstVectorView_get h this n))"

text \<open>\<^verbatim>\<open>Numeric& get(Index n)\<close> and \<^verbatim>\<open>Numeric& operator[](Index n)\<close> of VectorView.\<close>

definition VectorView_get :: "VectorView \<Rightarrow> Index \<Rightarrow> ptr" where
  "VectorView_get this n = mdata this + mstart (mrange this) + n * mstride (mrange this)"

definition VectorView_index :: "build \<Rightarrow> VectorView \<Rightarrow> Index \<Rightarrow> error + ptr" where
  "VectorView_index b this n =
     (if \<not> assert_holds b (0 \<le> n) then Inl AssertionFailed
      else if \<not> assert_holds b (n < mextent (mrange this)) then Inl AssertionFailed
      else Inr (VectorView_get this n))"

text \<open>
  \<^verbatim>\<open>Vector(Vector&& v) noexcept : VectorView(std::forward<VectorView>(v)) { v.mdata = nullptr; }\<close>
  The base class is initialised from \<open>v\<close> (a memberwise copy of range and pointer), then the
  body clears the pointer of \<open>v\<close>. The result is the new object and \<open>v\<close> afterwards.
\<close>

definition Vector_move_ctor :: "Vector \<Rightarrow> Vector \<times> Vector" where
  "Vector_move_ctor v =
     (let this = \<lparr>mrange = mrange v, mdata = mdata v\<rparr>;
          v' = v\<lparr>mdata := nullptr\<rparr>
      in (this, v'))"

subsection \<open>ConstMatrixView, MatrixView, Matrix\<close>

text \<open>The data pointer carries a suffix, since \<open>mdata\<close> names the field of the vector views.\<close>

record ConstMatrixView =
  mrr :: Range
  mcr :: Range
  mdata_m :: ptr

type_synonym MatrixView = ConstMatrixView

type_synonym Matrix = MatrixView

text \<open>\<^verbatim>\<open>Numeric get(Index r, Index c) const\<close>.\<close>

definition ConstMatrixView_get :: "'a heap \<Rightarrow> ConstMatrixView \<Rightarrow> Index \<Rightarrow> Index \<Rightarrow> 'a" where
  "ConstMatrixView_get h this r c =
     h (mdata_m this + mstart (mrr this) + r * mstride (mrr this) + mstart (mcr this) +
        c * mstride (mcr this))"

text \<open>\<^verbatim>\<open>Numeric operator()(Index r, Index c) const\<close>.\<close>

definition ConstMatrixView_call ::
  "build \<Rightarrow> 'a heap \<Rightarrow> ConstMatrixView \<Rightarrow> Index \<Rightarrow> Index \<Rightarrow> error + 'a" where
  "ConstMatrixView_call b h this r c =
     (if \<not> assert_holds b (0 \<le> r) then Inl AssertionFailed
      else if \<not> assert_holds b (0 \<le> c) then Inl AssertionFailed
      else if \<not> assert_holds b (r < mextent (mrr this)) then Inl AssertionFailed
      else if \<not> assert_holds b (c < mextent (mcr this)) then Inl AssertionFailed
      else Inr (ConstMatrixView_get h this r c))"

text \<open>\<^verbatim>\<open>Numeric& get(Index r, Index c)\<close> and \<^verbatim>\<open>Numeric& operator()(Index r, Index c)\<close> of MatrixView.\<close>

definition MatrixView_get :: "MatrixView \<Rightarrow> Index \<Rightarrow> Index \<Rightarrow> ptr" where
  "MatrixView_get this r c =
     mdata_m this + mstart (mrr this) + r * mstride (mrr this) + mstart (mcr this) +
     c * mstride (mcr this)"

definition MatrixView_call :: "build \<Rightarrow> MatrixView \<Rightarrow> Index \<Rightarrow> Index \<Rightarrow> error + ptr" where
  "MatrixView_call b this r c =
     (if \<not> assert_holds b (0 \<le> r) then Inl AssertionFailed
      else if \<not> assert_holds b (0 \<le> c) then Inl AssertionFailed
      else if \<not> assert_holds b (r < mextent (mrr this)) then Inl AssertionFailed
      else if \<not> assert_holds b (c < mextent (mcr this)) then Inl AssertionFailed
      else Inr (MatrixView_get this r c))"

text \<open>
  \<^verbatim>\<open>Matrix(Matrix&& v) noexcept : MatrixView(std::forward<MatrixView>(v)) { v.mdata = nullptr; }\<close>
\<close>

definition Matrix_move_ctor :: "Matrix \<Rightarrow> Matrix \<times> Matrix" where
  "Matrix_move_ctor v =
     (let this = \<lparr>mrr = mrr v, mcr = mcr v, mdata_m = mdata_m v\<rparr>;
          v' = v\<lparr>mdata_m := nullptr\<rparr>
      in (this, v'))"

subsection \<open>Operations declared in the header and defined elsewhere\<close>

text \<open>
  The bodies of the following members are in \<^verbatim>\<open>matpackI.cc\<close>, which is not among the sources
  at hand; each definition follows the wording of the specification. \<^verbatim>\<open>Numeric\<close> is the
  floating-point type of \<^verbatim>\<open>matpack.h\<close>; where arithmetic on elements is needed they are taken
  as real numbers.
\<close>

type_synonym Numeric = real

text \<open>
  Modelled from the spec: \<^verbatim>\<open>ConstVectorView::nelem\<close>, \<^verbatim>\<open>ConstMatrixView::nrows\<close> and
  \<^verbatim>\<open>ConstMatrixView::ncols\<close>, the extents of the view's Ranges.
\<close>

definition nelem :: "ConstVectorView \<Rightarrow> Index" where
  "nelem v = mextent (mrange v)"

definition nrows :: "ConstMatrixView \<Rightarrow> Index" where
  "nrows m = mextent (mrr m)"

definition ncols :: "ConstMatrixView \<Rightarrow> Index" where
  "ncols m = mextent (mcr m)"

text \<open>
  Modelled from the spec: \<^verbatim>\<open>Vector(std::initializer_list<Numeric> init)\<close>. The owning container
  allocates a contiguous backing buffer, fills it with the initializer sequence, and views
  all of it (start 0, extent the number of elements, stride 1). The address \<open>p\<close> of the new
  buffer is the allocator's choice and a parameter here.
\<close>

definition Vector_init_ctor :: "ptr \<Rightarrow> 'a list \<Rightarrow> 'a heap \<Rightarrow> Vector \<times> 'a heap" where
  "Vector_init_ctor p init h =
     (\<lparr>mrange = Range_ctor 0 (int (length init)) 1, mdata = p\<rparr>,
      (\<lambda>a. if p \<le> a \<and> a < p + int (length init) then init ! nat (a - p) else h a))"

text \<open>
  Modelled from the spec: \<^verbatim>\<open>VectorView::operator[](const Range&)\<close>. "Sub-view: v[Range] returns
  a new view composed per 4.1; O(1), no copy": the same data pointer with the view's Range
  applied to the argument.
\<close>

definition VectorView_sub :: "VectorView \<Rightarrow> Range \<Rightarrow> VectorView" where
  "VectorView_sub v r = \<lparr>mrange = Range_call (mrange v) r, mdata = mdata v\<rparr>"

text \<open>The elements that a view addresses, in index order, read with \<^verbatim>\<open>get\<close>.\<close>

definition elems :: "'a heap \<Rightarrow> ConstVectorView \<Rightarrow> 'a list" where
  "elems h v = map (\<lambda>i. ConstVectorView_get h v (int i)) [0..<nat (nelem v)]"

text \<open>
  Modelled from the spec: \<^verbatim>\<open>VectorView::operator*=(Numeric x)\<close>, the compound scalar operation:
  every addressed element is multiplied by \<open>x\<close> in place, in increasing index order.
\<close>

definition VectorView_mul_scalar :: "Numeric heap \<Rightarrow> VectorView \<Rightarrow> Numeric \<Rightarrow> Numeric heap" where
  "VectorView_mul_scalar h v x =
     fold (\<lambda>i h'. h'(VectorView_get v (int i) := h' (VectorView_get v (int i)) * x))
       [0..<nat (nelem v)] h"

text \<open>
  Modelled from the spec: \<^verbatim>\<open>VectorView::operator=(const ConstVectorView&)\<close>. Assignment requires
  \<open>dst.extent == src.extent\<close>; a mismatch raises \<open>DimensionMismatch\<close> "regardless of build
  mode"; otherwise the elements are copied one by one in increasing index order, each side
  with its own stride.
\<close>

definition VectorView_assign ::
  "build \<Rightarrow> 'a heap \<Rightarrow> VectorView \<Rightarrow> ConstVectorView \<Rightarrow> error + 'a heap" where
  "VectorView_assign b h dst src =
     (if nelem dst \<noteq> nelem src then Inl DimensionMismatch
      else Inr (fold (\<lambda>i h'. h'(VectorView_get dst (int i) := ConstVectorView_get h' src (int i)))
                  [0..<nat (nelem dst)] h))"

text \<open>
  Modelled from the spec: \<^verbatim>\<open>MatrixView::operator=(const ConstMatrixView&)\<close>, the same rule in
  two dimensions, row by row.
\<close>

definition MatrixView_assign ::
  "build \<Rightarrow> 'a heap \<Rightarrow> MatrixView \<Rightarrow> ConstMatrixView \<Rightarrow> error + 'a heap" where
  "MatrixView_assign b h dst src =
     (if nrows dst \<noteq> nrows src then Inl DimensionMismatch
      else if ncols dst \<noteq> ncols src then Inl DimensionMismatch
      else Inr (fold (\<lambda>r. fold (\<lambda>c h'. h'(MatrixView_get dst (int r) (int c) :=
                                          ConstMatrixView_get h' src (int r) (int c)))
                             [0..<nat (ncols dst)])
                  [0..<nat (nrows dst)] h))"

text \<open>
  Modelled from the spec: \<^verbatim>\<open>mult(VectorView y, const ConstMatrixView& M, const ConstVectorView& x)\<close>.
  It validates that the operands are conformable (\<open>M.ncols == x.nelem\<close>) and that the output
  has the matching shape, raising \<open>DimensionMismatch\<close> otherwise, and then stores the
  product \<open>M x\<close> in \<open>y\<close>. The output may not alias an input: the product is read from the
  memory before the call.
\<close>

definition mult_mv ::
  "build \<Rightarrow> Numeric heap \<Rightarrow> VectorView \<Rightarrow> ConstMatrixView \<Rightarrow> ConstVectorView \<Rightarrow>
   error + Numeric heap" where
  "mult_mv b h y M x =
     (if ncols M \<noteq> nelem x then Inl DimensionMismatch
      else if nrows M \<noteq> nelem y then Inl DimensionMismatch
      else Inr (fold (\<lambda>i h'. h'(VectorView_get y (int i) :=
                  (\<Sum>j\<leftarrow>[0..<nat (ncols M)].
                     ConstMatrixView_get h M (int i) (int j) * ConstVectorView_get h x (int j))))
                  [0..<nat (nrows M)] h))"

text \<open>
  Modelled from the spec:
  \<^verbatim>\<open>mult(MatrixView A, const ConstMatrixView& B, const ConstMatrixView& C)\<close>, the product
  \<open>A = B C\<close> under the same validation.
\<close>

definition mult_mm ::
  "build \<Rightarrow> Numeric heap \<Rightarrow> MatrixView \<Rightarrow> ConstMatrixView \<Rightarrow> ConstMatrixView \<Rightarrow>
   error + Numeric heap" where
  "mult_mm b h A B C =
     (if ncols B \<noteq> nrows C then Inl DimensionMismatch
      else if nrows A \<noteq> nrows B then Inl DimensionMismatch
      else if ncols A \<noteq> ncols C then Inl DimensionMismatch
      else Inr (fold (\<lambda>i. fold (\<lambda>j h'. h'(MatrixView_get A (int i) (int j) :=
                  (\<Sum>k\<leftarrow>[0..<nat (ncols B)].
                     ConstMatrixView_get h B (int i) (int k) * ConstMatrixView_get h C (int k) (int j))))
                             [0..<nat (ncols A)])
                  [0..<nat (nrows A)] h))"

section \<open>Properties\<close>

subsection \<open>Range composition\<close>

text \<open>
  Where the composition \<open>outer(inner)\<close> is settled by the code: the start is
  outer.start + inner.start * outer.stride and the stride is inner.stride * outer.stride for
  all Ranges; the extent is inner.extent when the inner Range is bounded, and the result stays
  unbounded (extent -1) when both Ranges are unbounded.
\<close>

lemma Range_call_start_stride:
  "mstart (Range_call outer inner) = mstart outer + mstart inner * mstride outer \<and>
   mstride (Range_call outer inner) = mstride inner * mstride outer \<and>
   (0 \<le> mextent inner \<longrightarrow> mextent (Range_call outer inner) = mextent inner) \<and>
   (mextent inner < 0 \<and> mextent outer < 0 \<longrightarrow> mextent (Range_call outer inner) = - 1)"
  by (simp add: Range_call_def Range_ctor_def Range_joker_def)

text \<open>
  C1. The composition \<open>outer(inner)\<close> has start = outer.start + inner.start * outer.stride,
  stride = inner.stride * outer.stride and extent = inner.extent, and for an unbounded inner
  Range the extent is the outer's remaining extent, the outer's extent reduced by the inner's
  start. The code misses the last part. For the outer Range(0, 10, 1) and the unbounded inner
  Range(2, joker, 1) it returns Range(2, 10, 1): the extent is 10 and not the remaining 10 - 2,
  so that the last index of the result, 11, lies beyond the last index of the outer Range, 9.
  With the strided inner Range(joker, 2) it returns Range(0, 10, 2), whose last index is 18.
  An unbounded inner Range extends "to the end of the vector" (the header's comment on
  \<^verbatim>\<open>mextent\<close>); the branch for a bounded outer Range resolves the joker to the outer's
  extent and forgets the inner's start and stride.
\<close>

theorem Range_call_joker_overruns_outer:
  "Range_call (Range_ctor 0 10 1) (Range_joker 2 1) = Range_ctor 2 10 1 \<and>
   mextent (Range_call (Range_ctor 0 10 1) (Range_joker 2 1))
     \<noteq> mextent (Range_ctor 0 10 1) - mstart (Range_joker 2 1) \<and>
   Range_at (Range_ctor 0 10 1) (mextent (Range_ctor 0 10 1) - 1) = 9 \<and>
   Range_at (Range_call (Range_ctor 0 10 1) (Range_joker 2 1))
     (mextent (Range_call (Range_ctor 0 10 1) (Range_joker 2 1)) - 1) = 11 \<and>
   Range_call (Range_ctor 0 10 1) (Range_joker 0 2) = Range_ctor 0 10 2 \<and>
   Range_at (Range_call (Range_ctor 0 10 1) (Range_joker 0 2))
     (mextent (Range_call (Range_ctor 0 10 1) (Range_joker 0 2)) - 1) = 18"
  by (simp add: Range_call_def Range_ctor_def Range_joker_def Range_at_def)

text \<open>
  C3. Range composition is associative: for all Ranges a, b and c, bounded or not,
  \<open>a(b(c))\<close> and \<open>a(b)(c)\<close> have the same start, extent and stride.
\<close>

theorem Range_call_assoc:
  "Range_call a (Range_call b c) = Range_call (Range_call a b) c"
  by (simp add: Range_call_def Range_ctor_def Range_joker_def algebra_simps)

text \<open>
  C4. For every Range with start s, extent n and stride k, and every index i with
  0 <= i < n, applying the Range to i yields s + i * k.
\<close>

theorem Range_at_index:
  assumes "0 \<le> i" and "i < n"
  shows "Range_at (Range_ctor s n k) i = s + i * k"
  by (simp add: Range_at_def Range_ctor_def)

theorem Range_at_index_witness:
  "(0::int) \<le> 2 \<and> (2::int) < 5 \<and> Range_at (Range_ctor 3 5 (- 2)) 2 = - 1"
  using Range_at_index [of 2 5 3 "- 2"] by simp

subsection \<open>Element access\<close>

text \<open>
  C5. For every matrix view m with row range (rs, re, rk) and column range (cs, ce, ck) and
  all valid indices r and c, the element access \<open>m(r,c)\<close> reads the element at offset
  rs + r * rk + cs + c * ck from the data pointer: the row Range applied to r plus the column
  Range applied to c. The same holds for the reference that the mutable view returns.
\<close>

theorem ConstMatrixView_call_offset:
  assumes "0 \<le> r" and "r < mextent (mrr m)" and "0 \<le> c" and "c < mextent (mcr m)"
  shows "ConstMatrixView_call b h m r c =
           Inr (h (mdata_m m + (mstart (mrr m) + r * mstride (mrr m) + mstart (mcr m) +
                                c * mstride (mcr m)))) \<and>
         ConstMatrixView_call b h m r c =
           Inr (h (mdata_m m + (Range_at (mrr m) r + Range_at (mcr m) c))) \<and>
         MatrixView_call b m r c =
           Inr (mdata_m m + (mstart (mrr m) + r * mstride (mrr m) + mstart (mcr m) +
                             c * mstride (mcr m))) \<and>
         ConstMatrixView_get h m r c = h (MatrixView_get m r c) \<and>
         MatrixView_get m r c = mdata_m m + (Range_at (mrr m) r + Range_at (mcr m) c)"
  using assms
  by (simp add: ConstMatrixView_call_def MatrixView_call_def ConstMatrixView_get_def
      MatrixView_get_def Range_at_def assert_holds_def add.assoc split: build.split)


theorem ConstMatrixView_call_offset_witness:
  "ConstMatrixView_call Debug (\<lambda>a. a * 10)
      \<lparr>mrr = Range_ctor 0 3 3, mcr = Range_ctor 0 3 1, mdata_m = 100\<rparr> 2 1 = Inr (1070 :: int) \<and>
   MatrixView_call Debug
      \<lparr>mrr = Range_ctor 0 3 3, mcr = Range_ctor 0 3 1, mdata_m = 100\<rparr> 2 1 = Inr 107"
  using ConstMatrixView_call_offset [of 2
      "\<lparr>mrr = Range_ctor 0 3 3, mcr = Range_ctor 0 3 1, mdata_m = 100\<rparr>" 1 Debug "\<lambda>a. a * 10"]
  by (simp add: Range_ctor_def)

text \<open>
  C7. For every vector view v, the indexed access \<open>v[i]\<close> is guarded by the assertions
  0 <= i and i < extent: with 0 <= i < extent no assertion fires and the access is
  \<open>v.get(i)\<close>; in a debug build the assertion fires exactly when the index is outside.
  \<open>v.get(i)\<close> computes the same address, data + start + i * stride, with no check.
\<close>

theorem VectorView_index_guarded:
  "(0 \<le> i \<and> i < mextent (mrange v) \<longrightarrow>
      ConstVectorView_index b h v i = Inr (ConstVectorView_get h v i) \<and>
      VectorView_index b v i = Inr (VectorView_get v i)) \<and>
   (ConstVectorView_index Debug h v i = Inl AssertionFailed) = (\<not> (0 \<le> i \<and> i < mextent (mrange v))) \<and>
   (VectorView_index Debug v i = Inl AssertionFailed) = (\<not> (0 \<le> i \<and> i < mextent (mrange v))) \<and>
   ConstVectorView_get h v i = h (mdata v + mstart (mrange v) + i * mstride (mrange v)) \<and>
   VectorView_get v i = mdata v + mstart (mrange v) + i * mstride (mrange v) \<and>
   ConstVectorView_index Release h v i = Inr (ConstVectorView_get h v i) \<and>
   VectorView_index Release v i = Inr (VectorView_get v i)"
  by (auto simp add: ConstVectorView_index_def VectorView_index_def ConstVectorView_get_def
      VectorView_get_def assert_holds_def split: build.split)


theorem VectorView_index_guarded_witness:
  "ConstVectorView_index Debug (\<lambda>a. a * 10) \<lparr>mrange = Range_ctor 1 3 2, mdata = 100\<rparr> 2 = Inr (1050::int) \<and>
   VectorView_index Debug \<lparr>mrange = Range_ctor 1 3 2, mdata = 100\<rparr> 2 = Inr 105 \<and>
   ConstVectorView_index Debug (\<lambda>a. a * 10) \<lparr>mrange = Range_ctor 1 3 2, mdata = 100\<rparr> 3 = Inl AssertionFailed \<and>
   ConstVectorView_get (\<lambda>a. a * 10) \<lparr>mrange = Range_ctor 1 3 2, mdata = 100\<rparr> 3 = (1070::int)"
  using VectorView_index_guarded [of 2 "\<lparr>mrange = Range_ctor 1 3 2, mdata = 100\<rparr>" Debug "\<lambda>a. a * 10"]
    VectorView_index_guarded [of 3 "\<lparr>mrange = Range_ctor 1 3 2, mdata = 100\<rparr>" Debug "\<lambda>a. a * 10"]
  by (simp add: Range_ctor_def)

subsection \<open>Iterators\<close>

text \<open>
  C6. Two 1D iterators compare equal if and only if their element pointers are the same
  address, whatever their strides: iterators with different strides at one address are
  equal, and iterators at different addresses are unequal.
\<close>

theorem Iterator1D_eq_iff_same_address:
  "Iterator1D_eq \<lparr>mx = p, mstride_it = k1\<rparr> \<lparr>mx = q, mstride_it = k2\<rparr> = (p = q) \<and>
   Iterator1D_neq \<lparr>mx = p, mstride_it = k1\<rparr> \<lparr>mx = q, mstride_it = k2\<rparr> = (p \<noteq> q) \<and>
   ConstIterator1D_neq \<lparr>mx_c = p, mstride_c = k1\<rparr> \<lparr>mx_c = q, mstride_c = k2\<rparr> = (p \<noteq> q) \<and>
   Iterator1D_eq a b = (mx a = mx b) \<and>
   Iterator1D_neq a b = (mx a \<noteq> mx b) \<and>
   ConstIterator1D_neq ca cb = (mx_c ca \<noteq> mx_c cb)"
  by (simp add: Iterator1D_eq_def Iterator1D_neq_def ConstIterator1D_neq_def)

lemma Iterator1D_incr_funpow:
  "(Iterator1D_incr ^^ n) (Iterator1D_ctor p k) = Iterator1D_ctor (p + int n * k) k"
  by (induction n) (simp_all add: Iterator1D_incr_def Iterator1D_ctor_def algebra_simps)

lemma sdiv_mult_self:
  fixes d k :: int
  assumes "k \<noteq> 0"
  shows "(d * k) sdiv k = d"
proof -
  have "sgn k * sgn k = 1"
    using assms by (simp add: sgn_if)
  moreover have "sgn d * \<bar>d\<bar> = d"
    by (simp add: sgn_if)
  moreover have "(d * k) sdiv k = (sgn d * \<bar>d\<bar>) * (sgn k * sgn k)"
    using assms by (simp add: signed_divide_int_def abs_mult sgn_mult)
  ultimately show ?thesis
    by simp
qed

text \<open>
  C10. Iterator subtraction \<open>a - b\<close> is the pointer difference divided by the stride of
  the left operand. For two iterators of one view with the same stride k, k not 0, at the
  logical positions i and j (the begin iterator incremented i and j times) it returns i - j.
  The division is defined exactly when the left stride is not zero; the stride of a
  default-constructed iterator is zero.
\<close>

theorem Iterator1D_minus_positions:
  "(k \<noteq> 0 \<longrightarrow>
      Iterator1D_minus ((Iterator1D_incr ^^ i) (Iterator1D_ctor p k))
                       ((Iterator1D_incr ^^ j) (Iterator1D_ctor p k)) = Inr (int i - int j)) \<and>
   Iterator1D_minus a b = (if mstride_it a = 0 then Inl DivisionByZero
                           else Inr ((mx a - mx b) sdiv mstride_it a)) \<and>
   (Iterator1D_minus a b = Inl DivisionByZero) = (mstride_it a = 0) \<and>
   Iterator1D_minus Iterator1D_default b = Inl DivisionByZero"
proof -
  have pos: "Iterator1D_minus ((Iterator1D_incr ^^ i) (Iterator1D_ctor p k))
               ((Iterator1D_incr ^^ j) (Iterator1D_ctor p k)) = Inr (int i - int j)"
    if "k \<noteq> 0"
  proof -
    have "p + int i * k - (p + int j * k) = (int i - int j) * k"
      by (simp add: algebra_simps)
    then show ?thesis
      using that sdiv_mult_self [of k "int i - int j"]
      unfolding Iterator1D_incr_funpow
      by (simp add: Iterator1D_minus_def Iterator1D_ctor_def)
  qed
  have zero: "(Iterator1D_minus a b = Inl DivisionByZero) = (mstride_it a = 0)"
    by (simp add: Iterator1D_minus_def)
  have dflt: "Iterator1D_minus Iterator1D_default b = Inl DivisionByZero"
    by (simp add: Iterator1D_minus_def Iterator1D_default_def)
  show ?thesis
    using pos zero dflt by (simp add: Iterator1D_minus_def)
qed


theorem Iterator1D_minus_positions_witness:
  "Iterator1D_minus ((Iterator1D_incr ^^ 1) (Iterator1D_ctor 100 (- 2)))
                    ((Iterator1D_incr ^^ 4) (Iterator1D_ctor 100 (- 2))) = Inr (- 3) \<and>
   Iterator1D_minus (Iterator1D_ctor 100 0) (Iterator1D_ctor 100 0) = Inl DivisionByZero"
  using Iterator1D_minus_positions [of "- 2" 1 100 4]
    Iterator1D_minus_positions [of 1 0 0 0 "Iterator1D_ctor 100 0" "Iterator1D_ctor 100 0"]
  by (simp add: Iterator1D_ctor_def Iterator1D_minus_def)

subsection \<open>Owning containers\<close>

text \<open>
  C8. Move construction of a Vector or a Matrix hands the data pointer (and the ranges) of the
  source to the new object and sets the data pointer of the moved-from object to null.
\<close>

theorem move_ctor_transfers_buffer:
  "mdata (fst (Vector_move_ctor v)) = mdata v \<and>
   mrange (fst (Vector_move_ctor v)) = mrange v \<and>
   mdata (snd (Vector_move_ctor v)) = nullptr \<and>
   mrange (snd (Vector_move_ctor v)) = mrange v \<and>
   mdata_m (fst (Matrix_move_ctor m)) = mdata_m m \<and>
   mrr (fst (Matrix_move_ctor m)) = mrr m \<and>
   mcr (fst (Matrix_move_ctor m)) = mcr m \<and>
   mdata_m (snd (Matrix_move_ctor m)) = nullptr \<and>
   mrr (snd (Matrix_move_ctor m)) = mrr m \<and>
   mcr (snd (Matrix_move_ctor m)) = mcr m"
  by (simp add: Vector_move_ctor_def Matrix_move_ctor_def Let_def)

subsection \<open>Sub-views share the buffer\<close>

text \<open>
  C9. For the owning vector v = {1,2,3,4,5} and the sub-view sub = v[Range(1,3,1)], sub reads
  as {2,3,4}. After the in-place scaling sub *= 2 the owner reads {1,4,6,8,5}: the elements
  that the sub-view addresses are doubled through the shared buffer, and v[0] and v[4],
  outside the sub-view, are unchanged. This holds wherever the buffer is allocated and
  whatever the memory held before.
\<close>

theorem sub_view_scaling_example:
  "(let (v, h0) = Vector_init_ctor p [1, 2, 3, 4, 5] h;
        sub = VectorView_sub v (Range_ctor 1 3 1);
        h1 = VectorView_mul_scalar h0 sub 2
    in elems h0 v = [1, 2, 3, 4, 5] \<and>
       elems h0 sub = [2, 3, 4] \<and>
       elems h1 v = [1, 4, 6, 8, 5] \<and>
       elems h1 sub = [4, 6, 8] \<and>
       ConstVectorView_get h1 v 0 = ConstVectorView_get h0 v 0 \<and>
       ConstVectorView_get h1 v 4 = ConstVectorView_get h0 v 4)"
  by (simp add: Vector_init_ctor_def VectorView_sub_def VectorView_mul_scalar_def elems_def
      nelem_def Range_call_def Range_ctor_def ConstVectorView_get_def VectorView_get_def
      upt_rec [of 0] upt_rec [of "Suc 0"] upt_rec [of 2] upt_rec [of 3] upt_rec [of 4] upt_rec[of 5]
      eval_nat_numeral)

subsection \<open>Dimension checks\<close>

lemma upt_2: "[0..<2] = [0, Suc 0]"
  by (simp add: upt_rec [of 0] upt_rec [of "Suc 0"] eval_nat_numeral)

text \<open>
  Two runs of the operations on conformable operands: the product of the 2x2 identity, stored
  row by row, with {a, b} is {a, b}; and an assignment copies a view of stride 2 into a view
  of stride -1 element by element.
\<close>

lemma mult_mv_identity:
  "(let M = \<lparr>mrr = Range_ctor 0 2 2, mcr = Range_ctor 0 2 1, mdata_m = 0\<rparr>;
        x = \<lparr>mrange = Range_ctor 0 2 1, mdata = 4\<rparr>;
        y = \<lparr>mrange = Range_ctor 0 2 1, mdata = 6\<rparr>;
        h = (\<lambda>_. 0)(0 := 1, 1 := 0, 2 := 0, 3 := 1, 4 := a, 5 := b)
    in map_sum id (\<lambda>h'. elems h' y) (mult_mv bm h y M x) = Inr [a, b])"
  by (simp add: mult_mv_def nelem_def nrows_def ncols_def Range_ctor_def elems_def
      ConstMatrixView_get_def ConstVectorView_get_def VectorView_get_def upt_2)

lemma VectorView_assign_strided:
  "(let src = \<lparr>mrange = Range_ctor 0 2 2, mdata = 0\<rparr>;
        dst = \<lparr>mrange = Range_ctor 1 2 (- 1), mdata = 4\<rparr>;
        h = (\<lambda>_. z)(0 := a, 2 := b)
    in map_sum id (\<lambda>h'. elems h' dst) (VectorView_assign bm h dst src) = Inr [a, b])"
  by (simp add: VectorView_assign_def nelem_def Range_ctor_def elems_def
      ConstVectorView_get_def VectorView_get_def upt_2)

text \<open>
  C2. Every assignment between views of mismatched extents and every multiply with
  non-conformable operands raises the error kind DimensionMismatch, and it does so in every
  build mode, debug and release alike; the operation never proceeds on mismatched operands,
  and DimensionMismatch is raised only for them.
\<close>

theorem dimension_mismatch_raised:
  "(nelem dst \<noteq> nelem src \<longrightarrow>
      VectorView_assign Debug h dst src = Inl DimensionMismatch \<and>
      VectorView_assign Release h dst src = Inl DimensionMismatch) \<and>
   (nrows mdst \<noteq> nrows msrc \<or> ncols mdst \<noteq> ncols msrc \<longrightarrow>
      MatrixView_assign Debug h mdst msrc = Inl DimensionMismatch \<and>
      MatrixView_assign Release h mdst msrc = Inl DimensionMismatch) \<and>
   (ncols M \<noteq> nelem x \<or> nrows M \<noteq> nelem y \<longrightarrow>
      mult_mv Debug g y M x = Inl DimensionMismatch \<and>
      mult_mv Release g y M x = Inl DimensionMismatch) \<and>
   (ncols B \<noteq> nrows C \<or> nrows A \<noteq> nrows B \<or> ncols A \<noteq> ncols C \<longrightarrow>
      mult_mm Debug g A B C = Inl DimensionMismatch \<and>
      mult_mm Release g A B C = Inl DimensionMismatch) \<and>
   (VectorView_assign b h dst src = Inl DimensionMismatch) = (nelem dst \<noteq> nelem src) \<and>
   (MatrixView_assign b h mdst msrc = Inl DimensionMismatch) =
     (nrows mdst \<noteq> nrows msrc \<or> ncols mdst \<noteq> ncols msrc) \<and>
   (mult_mv b g y M x = Inl DimensionMismatch) = (ncols M \<noteq> nelem x \<or> nrows M \<noteq> nelem y) \<and>
   (mult_mm b g A B C = Inl DimensionMismatch) =
     (ncols B \<noteq> nrows C \<or> nrows A \<noteq> nrows B \<or> ncols A \<noteq> ncols C)"
  by (simp add: VectorView_assign_def MatrixView_assign_def mult_mv_def mult_mm_def)

theorem dimension_mismatch_raised_witness:
  "VectorView_assign Release (\<lambda>_. 0::real) \<lparr>mrange = Range_ctor 0 2 1, mdata = 10\<rparr>
      \<lparr>mrange = Range_ctor 0 3 1, mdata = 20\<rparr> = Inl DimensionMismatch \<and>
   MatrixView_assign Release (\<lambda>_. 0::real)
      \<lparr>mrr = Range_ctor 0 2 2, mcr = Range_ctor 0 2 1, mdata_m = 10\<rparr>
      \<lparr>mrr = Range_ctor 0 2 3, mcr = Range_ctor 0 3 1, mdata_m = 20\<rparr> = Inl DimensionMismatch \<and>
   mult_mv Release (\<lambda>_. 0) \<lparr>mrange = Range_ctor 0 2 1, mdata = 30\<rparr>
      \<lparr>mrr = Range_ctor 0 2 2, mcr = Range_ctor 0 2 1, mdata_m = 10\<rparr>
      \<lparr>mrange = Range_ctor 0 3 1, mdata = 20\<rparr> = Inl DimensionMismatch \<and>
   mult_mm Release (\<lambda>_. 0)
      \<lparr>mrr = Range_ctor 0 2 2, mcr = Range_ctor 0 2 1, mdata_m = 30\<rparr>
      \<lparr>mrr = Range_ctor 0 2 3, mcr = Range_ctor 0 3 1, mdata_m = 10\<rparr>
      \<lparr>mrr = Range_ctor 0 2 2, mcr = Range_ctor 0 2 1, mdata_m = 20\<rparr> = Inl DimensionMismatch"
  using dimension_mismatch_raised [of
      "\<lparr>mrange = Range_ctor 0 2 1, mdata = 10\<rparr>" "\<lparr>mrange = Range_ctor 0 3 1, mdata = 20\<rparr>"
      "\<lambda>_. 0::real"
      "\<lparr>mrr = Range_ctor 0 2 2, mcr = Range_ctor 0 2 1, mdata_m = 10\<rparr>"
      "\<lparr>mrr = Range_ctor 0 2 3, mcr = Range_ctor 0 3 1, mdata_m = 20\<rparr>"
      "\<lparr>mrr = Range_ctor 0 2 2, mcr = Range_ctor 0 2 1, mdata_m = 10\<rparr>"
      "\<lparr>mrange = Range_ctor 0 3 1, mdata = 20\<rparr>"
      "\<lparr>mrange = Range_ctor 0 2 1, mdata = 30\<rparr>"
      "\<lambda>_. 0"
      "\<lparr>mrr = Range_ctor 0 2 3, mcr = Range_ctor 0 3 1, mdata_m = 10\<rparr>"
      "\<lparr>mrr = Range_ctor 0 2 2, mcr = Range_ctor 0 2 1, mdata_m = 20\<rparr>"
      "\<lparr>mrr = Range_ctor 0 2 2, mcr = Range_ctor 0 2 1, mdata_m = 30\<rparr>"
      Release]
  by (simp add: nelem_def nrows_def ncols_def Range_ctor_def)

end
